theory Spec2Isabelle
  imports Main "HOL-Library.Word"
begin

section \<open>Python values used by the extension\<close>

text \<open>
  A Python \<open>str\<close> is a sequence of Unicode code points, a \<open>bytes\<close> object a sequence of
  octets. String literals of the source are written with \<open>ustr\<close>.
\<close>

type_synonym pystr = "nat list"
type_synonym bytes = "8 word list"

definition ustr :: "string \<Rightarrow> pystr" where
  "ustr s = map of_char s"

text \<open>
  Exceptions. An exception is identified with its class; \<open>UserError name base\<close> is a class
  defined by the application, derived from \<open>base\<close>. \<open>mro\<close> lists a class and its ancestors
  (Python's method resolution order for these single-inheritance classes), and
  \<open>except cls:\<close> catches \<open>e\<close> when \<open>issubclass e cls\<close>.
\<close>

datatype exn =
    BaseException
  | Exception
  | KeyboardInterrupt
  | SystemExit
  | GeneratorExit
  | ValueError
  | UnicodeError
  | UnicodeDecodeError
  | UnicodeEncodeError
  | JSONDecodeError
  | RuntimeError
  | RecursionError
  | TypeError
  | AttributeError
  | UserError pystr exn

fun mro :: "exn \<Rightarrow> exn list" where
  "mro BaseException = [BaseException]"
| "mro Exception = [Exception, BaseException]"
| "mro KeyboardInterrupt = [KeyboardInterrupt, BaseException]"
| "mro SystemExit = [SystemExit, BaseException]"
| "mro GeneratorExit = [GeneratorExit, BaseException]"
| "mro ValueError = [ValueError, Exception, BaseException]"
| "mro UnicodeError = [UnicodeError, ValueError, Exception, BaseException]"
| "mro UnicodeDecodeError =
     [UnicodeDecodeError, UnicodeError, ValueError, Exception, BaseException]"
| "mro UnicodeEncodeError =
     [UnicodeEncodeError, UnicodeError, ValueError, Exception, BaseException]"
| "mro JSONDecodeError = [JSONDecodeError, ValueError, Exception, BaseException]"
| "mro RuntimeError = [RuntimeError, Exception, BaseException]"
| "mro RecursionError = [RecursionError, RuntimeError, Exception, BaseException]"
| "mro TypeError = [TypeError, Exception, BaseException]"
| "mro AttributeError = [AttributeError, Exception, BaseException]"
| "mro (UserError n b) = UserError n b # mro b"

definition issubclass :: "exn \<Rightarrow> exn \<Rightarrow> bool" where
  "issubclass e cls = (cls \<in> set (mro e))"

text \<open>
  \<open>try: body  except cls: handler\<close>, as a value: the body's outcome is kept unless it is
  an exception of class \<open>cls\<close>, which the handler replaces; any other exception propagates.
\<close>

definition try_except :: "exn + 'a \<Rightarrow> exn \<Rightarrow> exn + 'a \<Rightarrow> exn + 'a" where
  "try_except body cls handler =
     (case body of
        Inr v \<Rightarrow> Inr v
      | Inl e \<Rightarrow> if issubclass e cls then handler else Inl e)"

text \<open>
  The values a configuration store holds. A list is a mutable object: \<open>PyList r\<close> is the
  reference \<open>r\<close> to it, and the store (a function from references to items) tells which
  items it has at the moment. \<open>PyOther eq\<close> stands for an object of any type other than
  \<open>NoneType\<close>, \<open>bool\<close>, \<open>int\<close>, \<open>str\<close> and \<open>list\<close> (a float, a tuple, a dict, an instance
  of a subclass of \<open>list\<close>): \<open>type(x)\<close> tells it apart from all of them, and \<open>eq i\<close> is the
  value of \<open>x == i\<close> for the integer \<open>i\<close> (the float \<open>503.0\<close> equals \<open>503\<close>).
\<close>

type_synonym ref = nat

datatype pyval =
    PyNone
  | PyBool bool
  | PyInt int
  | PyStr pystr
  | PyList ref
  | PyOther "int \<Rightarrow> bool"

type_synonym store = "ref \<Rightarrow> pyval list"

datatype pytype = NoneType | TBool | TInt | TStr | TList | TOther

fun py_type :: "pyval \<Rightarrow> pytype" where
  "py_type PyNone = NoneType"
| "py_type (PyBool b) = TBool"
| "py_type (PyInt i) = TInt"
| "py_type (PyStr s) = TStr"
| "py_type (PyList r) = TList"
| "py_type (PyOther eq) = TOther"

text \<open>
  The object a variable that holds a list is bound to: the list at a reference, or the
  list that the expression \<open>[]\<close> has just made, which nothing else refers to and which
  therefore stays empty.
\<close>

datatype list_obj = ListAt ref | NewList

fun list_of :: "pyval \<Rightarrow> list_obj" where
  "list_of (PyList r) = ListAt r"
| "list_of v = NewList"

fun items :: "store \<Rightarrow> list_obj \<Rightarrow> pyval list" where
  "items h (ListAt r) = h r"
| "items h NewList = []"

fun bool_value :: "pyval \<Rightarrow> bool" where
  "bool_value (PyBool b) = b"
| "bool_value v = False"

text \<open>\<open>d.get(k)\<close>: the value under \<open>k\<close>, \<open>None\<close> when the key is absent.\<close>

definition dict_get :: "('k \<rightharpoonup> pyval) \<Rightarrow> 'k \<Rightarrow> pyval" where
  "dict_get d k = (case d k of None \<Rightarrow> PyNone | Some v \<Rightarrow> v)"

text \<open>
  \<open>i in xs\<close> for an integer \<open>i\<close>: some element compares equal to \<open>i\<close>. A \<open>bool\<close> is an
  \<open>int\<close> (\<open>True == 1\<close>); \<open>None\<close>, a string and a list are never equal to an integer; an
  object of another type decides by its own comparison.
\<close>

fun py_eq_int :: "pyval \<Rightarrow> int \<Rightarrow> bool" where
  "py_eq_int (PyInt n) i = (n = i)"
| "py_eq_int (PyBool b) i = ((if b then 1 else 0) = i)"
| "py_eq_int (PyOther eq) i = eq i"
| "py_eq_int PyNone i = False"
| "py_eq_int (PyStr s) i = False"
| "py_eq_int (PyList r) i = False"

fun py_in :: "int \<Rightarrow> pyval list \<Rightarrow> bool" where
  "py_in i [] = False"
| "py_in i (x # xs) = (if py_eq_int x i then True else py_in i xs)"

text \<open>
  \<open>str.strip()\<close> removes the leading and trailing characters for which \<open>str.isspace\<close>
  holds.
\<close>

definition py_isspace :: "nat \<Rightarrow> bool" where
  "py_isspace c =
     ((9 \<le> c \<and> c \<le> 13) \<or> (28 \<le> c \<and> c \<le> 32) \<or> c = 133 \<or> c = 160 \<or> c = 5760
      \<or> (8192 \<le> c \<and> c \<le> 8202) \<or> c = 8232 \<or> c = 8233 \<or> c = 8239 \<or> c = 8287
      \<or> c = 12288)"

definition strip :: "pystr \<Rightarrow> pystr" where
  "strip s = rev (dropWhile py_isspace (rev (dropWhile py_isspace s)))"

section \<open>The request and response objects of the framework\<close>

text \<open>
  A Python float, as far as its text goes: \<open>NaN\<close>, an infinity with its sign (\<open>True\<close> for
  the negative one), or a finite double \<open>Finite neg ds p\<close>, given by its sign, the digits
  \<open>ds\<close> of the shortest decimal that reads back as the same double and the position \<open>p\<close>
  of the decimal point (the value is \<open>0.ds\<close> times ten to the power \<open>p\<close>; zero has the
  digit 0 and the position 1).
\<close>

datatype pyfloat = NaN | Infinity bool | Finite bool "nat list" int

text \<open>
  Parsed JSON: what \<open>request.get_json\<close> and \<open>json.loads\<close> return. \<open>JNull\<close> is Python's
  \<open>None\<close>; a number with a fraction or an exponent is a float; an object keeps the order
  of its members, as a \<open>dict\<close> does.
\<close>

datatype json =
    JNull
  | JBool bool
  | JInt int
  | JFloat pyfloat
  | JStr pystr
  | JArray "json list"
  | JObject "(pystr \<times> json) list"

text \<open>
  The framework's objects are opaque collaborators: a request and a response are given by
  what the attributes and methods read by the extension return.
  \<^item> \<open>req_query_string\<close>: \<open>request.query_string\<close>, the raw bytes;
  \<^item> \<open>req_headers_wsgi\<close>: \<open>request.headers.to_wsgi_list()\<close>, a list of tuples of strings;
  \<^item> \<open>req_get_data\<close>: \<open>request.get_data()\<close>, the body's bytes;
  \<^item> \<open>req_get_json\<close>: \<open>request.get_json(silent=True)\<close>, \<open>None\<close> when the body is not JSON;
  \<^item> \<open>resp_status_code\<close> and \<open>resp_content_type\<close>: the attributes of the response;
  \<^item> \<open>resp_get_data_text\<close>: the outcome of \<open>response.get_data(as_text=True)\<close>, which may
    raise.
\<close>

record request =
  req_query_string :: bytes
  req_headers_wsgi :: "pystr list list"
  req_get_data :: bytes
  req_get_json :: json

record response =
  resp_status_code :: int
  resp_content_type :: "pystr option"
  resp_get_data_text :: "exn + pystr"

section \<open>Processor.py: the hook manager\<close>

type_synonym time = nat

text \<open>The keyword arguments of the callback, and the callback: it returns or raises.\<close>

record call_args =
  arg_request :: request
  arg_response :: response
  arg_request_start_time :: time
  arg_request_end_time :: time

type_synonym callback = "call_args \<Rightarrow> exn option"

text \<open>
  What a hook does besides returning: it calls the callback, and it logs an error.
\<close>

datatype event =
    Called callback call_args
  | LoggedError exn

text \<open>
  The instance: its two labels and the callback slot \<open>__process_request_response_f__\<close>,
  \<open>None\<close> in the class.
\<close>

record processor =
  label_status_codes :: pystr
  label_status_codes_exclude_only :: pystr
  process_request_response_f :: "callback option"

text \<open>
  The variables of \<open>init_app\<close> that the two hooks close over. The hooks also refer to
  \<open>self\<close>, whose slot they read when they run.
\<close>

record hook_env =
  filter_status_codes :: list_obj
  filter_status_codes_exclude_only :: bool
  filter_status_codes_empty :: bool

text \<open>
  The application: its configuration, the items of the list objects the program has, and,
  for every \<open>init_app\<close>, the environment of the pair of hooks registered with
  \<open>app.before_request\<close> and \<open>app.after_request\<close>.
\<close>

record flask_app =
  config :: "pystr \<rightharpoonup> pyval"
  store :: store
  hooks :: "hook_env list"

text \<open>The request context \<open>g\<close>: the attribute \<open>frr_start_time\<close>, when it is set.\<close>

record g_ctx =
  frr_start_time :: "time option"

definition init_env :: "processor \<Rightarrow> flask_app \<Rightarrow> hook_env" where
  "init_env self app =
     (let v = dict_get (config app) (label_status_codes self);
          codes = (if py_type v \<noteq> TList then NewList else list_of v);
          e = dict_get (config app) (label_status_codes_exclude_only self);
          exclude_only = (if py_type e \<noteq> TBool then False else bool_value e)
      in \<lparr>filter_status_codes = codes,
          filter_status_codes_exclude_only = exclude_only,
          filter_status_codes_empty = (length (items (store app) codes) = 0)\<rparr>)"

definition init_app :: "processor \<Rightarrow> flask_app \<Rightarrow> flask_app" where
  "init_app self app = app\<lparr>hooks := hooks app @ [init_env self app]\<rparr>"

definition default_prefix :: pystr where
  "default_prefix = ustr ''REQUEST_RESPONSE_PROCESSOR''"

text \<open>
  \<open>__init__\<close>: the new instance and the application, initialised when one is given.
\<close>

definition processor_new :: "flask_app option \<Rightarrow> pystr \<Rightarrow> processor \<times> flask_app option" where
  "processor_new app prefix =
     (let p = strip prefix;
          p = (if p = [] then default_prefix else p);
          self = \<lparr>label_status_codes = p @ ustr ''_STATUS_CODES'',
                  label_status_codes_exclude_only = p @ ustr ''_STATUS_CODES_EXCLUDE_ONLY'',
                  process_request_response_f = None\<rparr>
      in (self, map_option (init_app self) app))"

text \<open>
  The decorator \<open>process_request_response\<close>: it stores \<open>f\<close> and has no \<open>return\<close>, so the
  call's value is \<open>None\<close>. The second component is that value.
\<close>

definition process_request_response :: "processor \<Rightarrow> callback \<Rightarrow> processor \<times> callback option" where
  "process_request_response self f = (self\<lparr>process_request_response_f := Some f\<rparr>, None)"

definition before_request :: "time \<Rightarrow> g_ctx \<Rightarrow> g_ctx" where
  "before_request now g = g\<lparr>frr_start_time := Some now\<rparr>"

text \<open>
  The body of the \<open>try\<close> in \<open>after_request\<close>. The arguments of the call are evaluated
  before it: reading \<open>g.frr_start_time\<close> raises \<open>AttributeError\<close> when the attribute was
  never set.
\<close>

definition dispatch ::
  "processor \<Rightarrow> request \<Rightarrow> g_ctx \<Rightarrow> time \<Rightarrow> response \<Rightarrow> (exn + unit) \<times> event list" where
  "dispatch self flask_request g end_time resp =
     (case process_request_response_f self of
        None \<Rightarrow> (Inr (), [])
      | Some f \<Rightarrow>
          (case frr_start_time g of
             None \<Rightarrow> (Inl AttributeError, [])
           | Some start \<Rightarrow>
               (let args = \<lparr>arg_request = flask_request, arg_response = resp,
                            arg_request_start_time = start,
                            arg_request_end_time = end_time\<rparr>
                in case f args of
                     None \<Rightarrow> (Inr (), [Called f args])
                   | Some e \<Rightarrow> (Inl e, [Called f args]))))"

text \<open>
  The value of \<open>process_func\<close>. The membership test reads the items the list object has
  when the hook runs, in the store \<open>h\<close> of that moment; the two flags are the values
  computed by \<open>init_app\<close>.
\<close>

definition process_func :: "hook_env \<Rightarrow> store \<Rightarrow> response \<Rightarrow> bool" where
  "process_func env h resp =
     (if filter_status_codes_empty env = True then True
      else py_in (resp_status_code resp) (items h (filter_status_codes env))
             \<noteq> filter_status_codes_exclude_only env)"

text \<open>
  \<open>after_request\<close>, in the environment \<open>env\<close> of its \<open>init_app\<close>, with the store and the
  instance as they are when the hook runs, the current request, \<open>g\<close> and the clock's
  reading: the value returned to the framework, or the exception raised, and what
  happened on the way. \<open>logging.error\<close> does not raise.
\<close>

definition after_request ::
  "hook_env \<Rightarrow> store \<Rightarrow> processor \<Rightarrow> request \<Rightarrow> g_ctx \<Rightarrow> time \<Rightarrow> response
     \<Rightarrow> (exn + response) \<times> event list" where
  "after_request env h self flask_request g now resp =
     (let end_time = now in
      if process_func env h resp = True then
        (case dispatch self flask_request g end_time resp of
           (Inr u, tr) \<Rightarrow> (Inr resp, tr)
         | (Inl error, tr) \<Rightarrow>
             if issubclass error BaseException then (Inr resp, tr @ [LoggedError error])
             else (Inl error, tr))
      else (Inr resp, []))"

text \<open>The callbacks a hook called, in order.\<close>

fun invoked :: "event list \<Rightarrow> callback list" where
  "invoked [] = []"
| "invoked (Called f a # es) = f # invoked es"
| "invoked (LoggedError e # es) = invoked es"

section \<open>Formatter.py: the property formatters\<close>

subsection \<open>Library functions the formatters call\<close>

text \<open>
  \<open>bytes.decode('utf-8')\<close> with the default strict error handling: the code points of
  a well-formed UTF-8 byte sequence; \<open>UnicodeDecodeError\<close> on any other sequence (a stray
  or missing continuation byte, an overlong form, a surrogate, a value above U+10FFFF).
\<close>

definition continuation :: "nat \<Rightarrow> bool" where
  "continuation b = (128 \<le> b \<and> b \<le> 191)"

fun utf8_points :: "nat list \<Rightarrow> pystr option" where
  "utf8_points [] = Some []"
| "utf8_points (b0 # bs) =
     (if b0 < 128 then map_option (Cons b0) (utf8_points bs)
      else if 194 \<le> b0 \<and> b0 \<le> 223 then
        (case bs of
           b1 # r \<Rightarrow>
             if continuation b1
             then map_option (Cons ((b0 - 192) * 64 + (b1 - 128))) (utf8_points r)
             else None
         | _ \<Rightarrow> None)
      else if 224 \<le> b0 \<and> b0 \<le> 239 then
        (case bs of
           b1 # b2 # r \<Rightarrow>
             if (if b0 = 224 then 160 else 128) \<le> b1
                \<and> b1 \<le> (if b0 = 237 then 159 else 191) \<and> continuation b2
             then map_option
                    (Cons ((b0 - 224) * 4096 + (b1 - 128) * 64 + (b2 - 128)))
                    (utf8_points r)
             else None
         | _ \<Rightarrow> None)
      else if 240 \<le> b0 \<and> b0 \<le> 244 then
        (case bs of
           b1 # b2 # b3 # r \<Rightarrow>
             if (if b0 = 240 then 144 else 128) \<le> b1
                \<and> b1 \<le> (if b0 = 244 then 143 else 191)
                \<and> continuation b2 \<and> continuation b3
             then map_option
                    (Cons ((b0 - 240) * 262144 + (b1 - 128) * 4096 + (b2 - 128) * 64
                           + (b3 - 128)))
                    (utf8_points r)
             else None
         | _ \<Rightarrow> None)
      else None)"

definition decode_utf8 :: "bytes \<Rightarrow> exn + pystr" where
  "decode_utf8 bs =
     (case utf8_points (map unat bs) of
        None \<Rightarrow> Inl UnicodeDecodeError
      | Some s \<Rightarrow> Inr s)"

text \<open>
  \<open>json.dumps(obj, separators=(item_separator, key_separator))\<close> with the other options
  at their defaults (\<open>ensure_ascii=True\<close>, \<open>allow_nan=True\<close>, no indentation): integers in
  decimal, floats as \<open>float.__repr__\<close> writes them, strings quoted with every character
  outside printable ASCII escaped, the items of an array or an object joined by the item
  separator, a key and its value by the key separator.
\<close>

fun nat_repr :: "nat \<Rightarrow> pystr" where
  "nat_repr n = (if n < 10 then [48 + n] else nat_repr (n div 10) @ [48 + n mod 10])"

declare nat_repr.simps [simp del]

definition int_repr :: "int \<Rightarrow> pystr" where
  "int_repr i = (if i < 0 then 45 # nat_repr (nat (- i)) else nat_repr (nat i))"

text \<open>
  \<open>float.__repr__\<close> of a finite double, from its sign, its shortest digits and the
  position of the point: the exponent form (one digit before the point, the exponent
  with a sign and two digits at least) when the position is at most \<open>-4\<close> or above 16,
  the plain form otherwise, with \<open>.0\<close> added to an integral value.
\<close>

definition digit_chars :: "nat list \<Rightarrow> pystr" where
  "digit_chars ds = map (\<lambda>d. 48 + d) ds"

definition exponent_repr :: "int \<Rightarrow> pystr" where
  "exponent_repr e =
     (if e < 0 then [45] else [43])
     @ (if \<bar>e\<bar> < 10 then 48 # nat_repr (nat \<bar>e\<bar>) else nat_repr (nat \<bar>e\<bar>))"

definition float_repr :: "bool \<Rightarrow> nat list \<Rightarrow> int \<Rightarrow> pystr" where
  "float_repr neg ds p =
     (if neg then [45] else [])
     @ (if p \<le> - 4 \<or> 16 < p then
          take 1 (digit_chars ds)
          @ (if 1 < length ds then [46] @ drop 1 (digit_chars ds) else [])
          @ [101] @ exponent_repr (p - 1)
        else if p \<le> 0 then [48, 46] @ replicate (nat (- p)) 48 @ digit_chars ds
        else if nat p < length ds then
          take (nat p) (digit_chars ds) @ [46] @ drop (nat p) (digit_chars ds)
        else digit_chars ds @ replicate (nat p - length ds) 48 @ [46, 48])"

text \<open>The encoder's text of a float: the three special values by name.\<close>

fun floatstr :: "pyfloat \<Rightarrow> pystr" where
  "floatstr NaN = ustr ''NaN''"
| "floatstr (Infinity neg) = (if neg then ustr ''-Infinity'' else ustr ''Infinity'')"
| "floatstr (Finite neg ds p) = float_repr neg ds p"

definition hex_digit :: "nat \<Rightarrow> nat" where
  "hex_digit d = (if d < 10 then 48 + d else 87 + d)"

text \<open>The escape \<open>\uXXXX\<close> of a code unit below \<open>0x10000\<close>: four lower-case hex digits.\<close>

definition u_escape :: "nat \<Rightarrow> pystr" where
  "u_escape n =
     [92, 117, hex_digit (n div 4096 mod 16), hex_digit (n div 256 mod 16),
      hex_digit (n div 16 mod 16), hex_digit (n mod 16)]"

text \<open>
  The replacement of one character. Backslash, the double quote and the five control
  characters with a short form get that form; the other characters from the space to the
  tilde stay; the rest becomes a \<open>\uXXXX\<close> escape, a surrogate pair above U+FFFF
  (\<open>0xd800 | ((n >> 10) & 0x3ff)\<close> and \<open>0xdc00 | (n & 0x3ff)\<close>, written with \<open>div\<close> and
  \<open>mod\<close>).
\<close>

definition escape_char :: "nat \<Rightarrow> pystr" where
  "escape_char c =
     (if c = 92 then [92, 92]
      else if c = 34 then [92, 34]
      else if c = 8 then [92, 98]
      else if c = 12 then [92, 102]
      else if c = 10 then [92, 110]
      else if c = 13 then [92, 114]
      else if c = 9 then [92, 116]
      else if 32 \<le> c \<and> c \<le> 126 then [c]
      else if c < 65536 then u_escape c
      else (let n = c - 65536
            in u_escape (55296 + n div 1024 mod 1024) @ u_escape (56320 + n mod 1024)))"

definition encode_str :: "pystr \<Rightarrow> pystr" where
  "encode_str s = [34] @ concat (map escape_char s) @ [34]"

fun join :: "pystr \<Rightarrow> pystr list \<Rightarrow> pystr" where
  "join sep [] = []"
| "join sep [x] = x"
| "join sep (x # y # ys) = x @ sep @ join sep (y # ys)"

text \<open>The text the encoder writes for a value.\<close>

fun json_encode :: "pystr \<times> pystr \<Rightarrow> json \<Rightarrow> pystr" where
  "json_encode seps JNull = ustr ''null''"
| "json_encode seps (JBool b) = (if b then ustr ''true'' else ustr ''false'')"
| "json_encode seps (JInt i) = int_repr i"
| "json_encode seps (JFloat x) = floatstr x"
| "json_encode seps (JStr s) = encode_str s"
| "json_encode seps (JArray xs) =
     ustr ''['' @ join (fst seps) (map (json_encode seps) xs) @ ustr '']''"
| "json_encode seps (JObject kvs) =
     ustr ''{''
     @ join (fst seps) (map (\<lambda>(k, v). encode_str k @ snd seps @ json_encode seps v) kvs)
     @ ustr ''}''"

text \<open>
  The encoder enters one level of recursion for every list and every dict it writes, an
  empty one too, and leaves it afterwards: \<open>json_depth\<close> is the number of levels a value
  needs. \<open>json.dumps\<close> is called with \<open>room\<close> levels left below the interpreter's
  recursion limit; it raises \<open>RecursionError\<close> when the value needs more, and returns the
  text otherwise. It raises nothing else on a parsed value.
\<close>

fun json_depth :: "json \<Rightarrow> nat" where
  "json_depth (JArray xs) = Suc (foldr max (map json_depth xs) 0)"
| "json_depth (JObject kvs) = Suc (foldr max (map (\<lambda>(k, v). json_depth v) kvs) 0)"
| "json_depth v = 0"

definition json_dumps :: "nat \<Rightarrow> pystr \<times> pystr \<Rightarrow> json \<Rightarrow> exn + pystr" where
  "json_dumps room seps v =
     (if room < json_depth v then Inl RecursionError else Inr (json_encode seps v))"

subsection \<open>FlaskRequestFormatter\<close>

definition json_separators :: "pystr \<times> pystr" where
  "json_separators = (ustr '','', ustr '':'')"

definition query_string :: "request \<Rightarrow> exn + pystr" where
  "query_string rq =
     try_except (decode_utf8 (req_query_string rq)) UnicodeEncodeError (Inr [])"

text \<open>
  The dict comprehension of \<open>headers\<close>: the tuples are visited in order, and a key that
  is already present gets the new value.
\<close>

fun headers_dict :: "(pystr \<rightharpoonup> pystr) \<Rightarrow> pystr list list \<Rightarrow> (pystr \<rightharpoonup> pystr)" where
  "headers_dict d [] = d"
| "headers_dict d (header # hs) =
     headers_dict (if length header = 2 then d(header ! 0 \<mapsto> header ! 1) else d) hs"

definition headers :: "request \<Rightarrow> (pystr \<rightharpoonup> pystr)" where
  "headers rq = headers_dict Map.empty (req_headers_wsgi rq)"

definition payload_raw :: "request \<Rightarrow> exn + pystr" where
  "payload_raw rq =
     try_except (decode_utf8 (req_get_data rq)) UnicodeEncodeError (Inr [])"

definition payload_json :: "request \<Rightarrow> json" where
  "payload_json rq = req_get_json rq"

text \<open>
  The two accessors that serialize take, as \<open>room\<close>, the recursion levels left where they
  are called.
\<close>

definition payload_json_compressed_str :: "nat \<Rightarrow> request \<Rightarrow> exn + pystr" where
  "payload_json_compressed_str room rq =
     try_except (json_dumps room json_separators (payload_json rq)) JSONDecodeError
       (Inr [])"

definition payload_is_json :: "request \<Rightarrow> bool" where
  "payload_is_json rq =
     (let headers_js = headers rq
      in case headers_js (ustr ''Content-Type'') of
           None \<Rightarrow> False
         | Some v \<Rightarrow> v = ustr ''application/json'' \<and> payload_json rq \<noteq> JNull)"

subsection \<open>FlaskResponseFormatter\<close>

text \<open>
  \<open>json.loads\<close> is the standard library's parser; the formatter's functions take it as
  the parameter \<open>loads\<close>: the parsed value, or the exception raised.
\<close>

definition response_raw :: "response \<Rightarrow> exn + pystr" where
  "response_raw rs = try_except (resp_get_data_text rs) RuntimeError (Inr [])"

definition response_json :: "(pystr \<Rightarrow> exn + json) \<Rightarrow> response \<Rightarrow> exn + json" where
  "response_json loads rs =
     try_except
       (case response_raw rs of Inl e \<Rightarrow> Inl e | Inr s \<Rightarrow> loads s)
       JSONDecodeError (Inr JNull)"

definition response_json_compressed_str ::
  "nat \<Rightarrow> (pystr \<Rightarrow> exn + json) \<Rightarrow> response \<Rightarrow> exn + pystr" where
  "response_json_compressed_str room loads rs =
     try_except
       (case response_json loads rs of
          Inl e \<Rightarrow> Inl e
        | Inr v \<Rightarrow> json_dumps room json_separators v)
       JSONDecodeError (Inr [])"

definition response_is_json :: "(pystr \<Rightarrow> exn + json) \<Rightarrow> response \<Rightarrow> exn + bool" where
  "response_is_json loads rs =
     (if resp_content_type rs = Some (ustr ''application/json'') then
        (case response_json loads rs of
           Inl e \<Rightarrow> Inl e
         | Inr v \<Rightarrow> Inr (v \<noteq> JNull))
      else Inr False)"

section \<open>test.py: the demonstration application\<close>

text \<open>
  The application of \<open>test.py\<close>: the list \<open>[500, 503]\<close>, an object of its own (at the
  reference 0), under the status-codes key, \<open>False\<close> under the exclude-only key, and the
  handler made by \<open>FlaskRequestResponseProcessor(app=app)\<close>.
\<close>

definition test_app :: flask_app where
  "test_app =
     \<lparr>config =
        [ustr ''REQUEST_RESPONSE_PROCESSOR_STATUS_CODES'' \<mapsto> PyList 0,
         ustr ''REQUEST_RESPONSE_PROCESSOR_STATUS_CODES_EXCLUDE_ONLY'' \<mapsto> PyBool False],
      store = (\<lambda>r. [])(0 := [PyInt 500, PyInt 503]),
      hooks = []\<rparr>"

definition response_handler :: "processor \<times> flask_app option" where
  "response_handler = processor_new (Some test_app) default_prefix"

section \<open>Notions used to state the properties\<close>

text \<open>
  What the application can do to its configuration: \<open>app.config[k] = v\<close> binds a key;
  a list display such as \<open>[500, 503]\<close> gives a list object its items; \<open>xs.append(x)\<close>
  changes a list object in place.
\<close>

definition set_config :: "flask_app \<Rightarrow> pystr \<Rightarrow> pyval \<Rightarrow> flask_app" where
  "set_config app k v = app\<lparr>config := (config app)(k \<mapsto> v)\<rparr>"

definition set_list :: "flask_app \<Rightarrow> ref \<Rightarrow> pyval list \<Rightarrow> flask_app" where
  "set_list app r xs = app\<lparr>store := (store app)(r := xs)\<rparr>"

definition list_append :: "flask_app \<Rightarrow> ref \<Rightarrow> pyval \<Rightarrow> flask_app" where
  "list_append app r x = app\<lparr>store := (store app)(r := store app r @ [x])\<rparr>"

text \<open>The decorator applied to one function after the other.\<close>

fun register_all :: "processor \<Rightarrow> callback list \<Rightarrow> processor" where
  "register_all self [] = self"
| "register_all self (f # fs) = register_all (fst (process_request_response self f)) fs"

text \<open>
  The number of space characters of a string, and of the keys and strings of a parsed
  value.
\<close>

definition spaces :: "pystr \<Rightarrow> nat" where
  "spaces s = count_list s 32"

fun json_spaces :: "json \<Rightarrow> nat" where
  "json_spaces JNull = 0"
| "json_spaces (JBool b) = 0"
| "json_spaces (JInt i) = 0"
| "json_spaces (JFloat x) = 0"
| "json_spaces (JStr s) = spaces s"
| "json_spaces (JArray xs) = sum_list (map json_spaces xs)"
| "json_spaces (JObject kvs) = sum_list (map (\<lambda>(k, v). spaces k + json_spaces v) kvs)"

text \<open>Empty arrays inside one another: \<open>nested n\<close> has \<open>n + 1\<close> brackets.\<close>

fun nested :: "nat \<Rightarrow> json" where
  "nested 0 = JArray []"
| "nested (Suc n) = JArray [nested n]"

section \<open>Properties of the hook manager\<close>

lemma issubclass_BaseException: "issubclass e BaseException"
  unfolding issubclass_def by (induction e) simp_all

lemma py_in_ints: "py_in i (map PyInt codes) = (i \<in> set codes)"
  by (induction codes) auto

lemma labels_new:
  "label_status_codes (fst (processor_new app prefix)) \<noteq>
   label_status_codes_exclude_only (fst (processor_new app prefix))"
  by (simp add: processor_new_def Let_def ustr_def)

lemma init_env_configured:
  assumes "label_status_codes self \<noteq> label_status_codes_exclude_only self"
  shows "init_env self
           (set_config (set_config (set_list app r xs) (label_status_codes self) (PyList r))
              (label_status_codes_exclude_only self) (PyBool b))
         = \<lparr>filter_status_codes = ListAt r, filter_status_codes_exclude_only = b,
            filter_status_codes_empty = (xs = [])\<rparr>"
  using assms by (simp add: init_env_def set_config_def set_list_def dict_get_def)

lemma store_configured:
  "store (set_config (set_config (set_list app r xs) k (PyList r)) k' v) r = xs"
  by (simp add: set_config_def set_list_def)

text \<open>
  With a callback in the slot and the start time stamped by the before-hook, the
  after-hook calls that callback once when the predicate holds, and no callback otherwise.
\<close>

lemma invoked_after_request:
  "process_request_response_f self = Some f \<Longrightarrow>
   invoked (snd (after_request env h self rq (before_request t0 g) now resp))
     = (if process_func env h resp then [f] else [])"
  by (simp add: after_request_def dispatch_def before_request_def issubclass_BaseException
        Let_def split: option.splits)

text \<open>
  Claim C1. For every list of status codes and every exclude-only flag stored under the
  two configuration keys, and every response, the after-hook of a request whose
  before-hook ran calls the registered callback if and only if the list is empty or
  membership of the status code in the list differs from the flag (exclusive or). With
  the empty list the right-hand side holds whatever the flag is.
\<close>

theorem after_request_dispatch_iff:
  "(let self = fst (processor_new None prefix);
        app' = set_config
                 (set_config (set_list app r (map PyInt codes))
                    (label_status_codes self) (PyList r))
                 (label_status_codes_exclude_only self) (PyBool exclude_only);
        env = init_env self app';
        self' = fst (process_request_response self f)
    in invoked (snd (after_request env (store app') self' rq (before_request t0 g) t1 resp)))
   = (if codes = [] \<or> ((resp_status_code resp \<in> set codes) \<noteq> exclude_only)
      then [f] else [])"
proof -
  let ?self = "fst (processor_new None prefix)"
  have slot: "process_request_response_f (fst (process_request_response ?self f)) = Some f"
    by (simp add: process_request_response_def)
  show ?thesis
    unfolding Let_def
    by (simp only: init_env_configured [OF labels_new] invoked_after_request [OF slot])
       (simp add: process_func_def py_in_ints store_configured)
qed

text \<open>
  Claim C3. When the registered callback raises an exception \<open>e\<close>, whatever its class,
  the after-hook returns the response it was given: the exception is logged and does not
  propagate.
\<close>

theorem after_request_callback_raises:
  assumes "process_request_response_f self = Some f"
    and "frr_start_time g = Some start"
    and "f \<lparr>arg_request = rq, arg_response = resp, arg_request_start_time = start,
            arg_request_end_time = now\<rparr> = Some e"
  shows "after_request env h self rq g now resp =
           (Inr resp,
            if process_func env h resp
            then [Called f \<lparr>arg_request = rq, arg_response = resp,
                             arg_request_start_time = start, arg_request_end_time = now\<rparr>,
                  LoggedError e]
            else [])"
  using assms
  by (simp add: after_request_def dispatch_def issubclass_BaseException Let_def)

theorem after_request_callback_raises_witness:
  "process_request_response_f
     \<lparr>label_status_codes = ustr ''P_STATUS_CODES'',
      label_status_codes_exclude_only = ustr ''P_STATUS_CODES_EXCLUDE_ONLY'',
      process_request_response_f = Some (\<lambda>a. Some KeyboardInterrupt)\<rparr>
     = Some (\<lambda>a. Some KeyboardInterrupt)
   \<and> frr_start_time \<lparr>frr_start_time = Some 5\<rparr> = Some 5
   \<and> after_request
       \<lparr>filter_status_codes = ListAt 0,
        filter_status_codes_exclude_only = False, filter_status_codes_empty = False\<rparr>
       (\<lambda>r. [PyInt 500, PyInt 503])
       \<lparr>label_status_codes = ustr ''P_STATUS_CODES'',
        label_status_codes_exclude_only = ustr ''P_STATUS_CODES_EXCLUDE_ONLY'',
        process_request_response_f = Some (\<lambda>a. Some KeyboardInterrupt)\<rparr>
       \<lparr>req_query_string = [], req_headers_wsgi = [], req_get_data = [],
        req_get_json = JNull\<rparr>
       \<lparr>frr_start_time = Some 5\<rparr> 9
       \<lparr>resp_status_code = 503, resp_content_type = None, resp_get_data_text = Inr []\<rparr>
     = (Inr \<lparr>resp_status_code = 503, resp_content_type = None,
              resp_get_data_text = Inr []\<rparr>,
        [Called (\<lambda>a. Some KeyboardInterrupt)
           \<lparr>arg_request = \<lparr>req_query_string = [], req_headers_wsgi = [],
                             req_get_data = [], req_get_json = JNull\<rparr>,
            arg_response = \<lparr>resp_status_code = 503, resp_content_type = None,
                              resp_get_data_text = Inr []\<rparr>,
            arg_request_start_time = 5, arg_request_end_time = 9\<rparr>,
         LoggedError KeyboardInterrupt])"
  using after_request_callback_raises
    [where self = "\<lparr>label_status_codes = ustr ''P_STATUS_CODES'',
        label_status_codes_exclude_only = ustr ''P_STATUS_CODES_EXCLUDE_ONLY'',
        process_request_response_f = Some (\<lambda>a. Some KeyboardInterrupt)\<rparr>"
       and f = "\<lambda>a. Some KeyboardInterrupt"
       and g = "\<lparr>frr_start_time = Some 5\<rparr>" and start = 5 and now = 9
       and e = KeyboardInterrupt
       and rq = "\<lparr>req_query_string = [], req_headers_wsgi = [], req_get_data = [],
        req_get_json = JNull\<rparr>"
       and resp = "\<lparr>resp_status_code = 503, resp_content_type = None,
                     resp_get_data_text = Inr []\<rparr>"
       and env = "\<lparr>filter_status_codes = ListAt 0,
        filter_status_codes_exclude_only = False, filter_status_codes_empty = False\<rparr>"
       and h = "\<lambda>r. [PyInt 500, PyInt 503]"]
  by (simp add: process_func_def)

lemma register_all_snoc:
  "process_request_response_f (register_all self (fs @ [f])) = Some f"
  by (induction fs arbitrary: self) (simp_all add: process_request_response_def)

text \<open>
  Claim C5. The slot holds one callback. On a new instance the after-hook calls nothing
  and logs nothing. After any sequence of registrations that ends with \<open>f\<close> the slot holds
  \<open>f\<close>, and the only callback the after-hook calls is \<open>f\<close>.
\<close>

theorem registration_single_slot:
  "snd (after_request env h (fst (processor_new app prefix)) rq g now resp) = []
   \<and> process_request_response_f (register_all self (fs @ [f])) = Some f
   \<and> invoked (snd (after_request env h (register_all self (fs @ [f])) rq
                     (before_request t0 g0) now resp))
       = (if process_func env h resp then [f] else [])"
proof -
  have "process_request_response_f (fst (processor_new app prefix)) = None"
    by (simp add: processor_new_def Let_def)
  then have "snd (after_request env h (fst (processor_new app prefix)) rq g now resp) = []"
    by (simp add: after_request_def dispatch_def Let_def)
  then show ?thesis
    by (simp add: register_all_snoc invoked_after_request)
qed

subsection \<open>What the hooks keep of the configuration\<close>

lemma strip_default_prefix: "strip default_prefix = default_prefix"
  by (simp add: strip_def default_prefix_def ustr_def py_isspace_def)

lemma response_handler_self:
  "fst response_handler =
     \<lparr>label_status_codes = ustr ''REQUEST_RESPONSE_PROCESSOR_STATUS_CODES'',
      label_status_codes_exclude_only =
        ustr ''REQUEST_RESPONSE_PROCESSOR_STATUS_CODES_EXCLUDE_ONLY'',
      process_request_response_f = None\<rparr>"
  by (simp add: response_handler_def processor_new_def strip_default_prefix Let_def)
     (simp add: default_prefix_def ustr_def)

lemma response_handler_app:
  "snd response_handler = Some (init_app (fst response_handler) test_app)"
  by (simp add: response_handler_def processor_new_def Let_def)

lemma test_env:
  "init_env (fst response_handler) test_app =
     \<lparr>filter_status_codes = ListAt 0, filter_status_codes_exclude_only = False,
      filter_status_codes_empty = False\<rparr>"
  unfolding response_handler_self
  by (simp add: init_env_def test_app_def dict_get_def ustr_def)

text \<open>
  Claim C6, as stated, fails on the code. In the demonstration application the hooks are
  registered with the filter \<open>[500, 503]\<close> and a response with the status 200 is not
  processed. The hooks hold the configuration's own list object: once the application
  appends 200 to that list, with the registered hooks as they were, the same response is
  processed. The filter is not held unchanged.
\<close>

theorem filter_list_shared_counterexample:
  "hooks (list_append (init_app (fst response_handler) test_app) 0 (PyInt 200))
     = hooks (init_app (fst response_handler) test_app)
   \<and> process_func (init_env (fst response_handler) test_app)
        (store (init_app (fst response_handler) test_app))
        \<lparr>resp_status_code = 200, resp_content_type = None, resp_get_data_text = Inr []\<rparr>
     = False
   \<and> process_func (init_env (fst response_handler) test_app)
        (store (list_append (init_app (fst response_handler) test_app) 0 (PyInt 200)))
        \<lparr>resp_status_code = 200, resp_content_type = None, resp_get_data_text = Inr []\<rparr>
     = True"
  unfolding test_env
  by (simp add: process_func_def list_append_def init_app_def test_app_def)

text \<open>
  Claim C6, amended. \<open>init_app\<close> binds the filter to the list object found under the
  status-codes key, and to a new empty list when the key is absent or holds anything
  else; it takes the boolean under the exclude-only key, and \<open>False\<close> when the key is
  absent or holds anything else; the emptiness flag says whether the list had no item at
  that moment. Both keys are read once: binding a key to another value afterwards changes
  neither the registered environment nor the items of any list, and an in-place change of
  a list leaves the registered environment, with the two flags and the identity of the
  list, as it was. Only the items of the shared list follow such a change. The two keys
  are the prefix, stripped, or the default prefix when nothing is left of it, followed by
  \<open>_STATUS_CODES\<close> and \<open>_STATUS_CODES_EXCLUDE_ONLY\<close>.
\<close>

theorem init_app_reads_once:
  "filter_status_codes (init_env self app)
     = (case config app (label_status_codes self) of
          Some (PyList r) \<Rightarrow> ListAt r | _ \<Rightarrow> NewList)
   \<and> items (store app) (filter_status_codes (init_env self app))
     = (case config app (label_status_codes self) of
          Some (PyList r) \<Rightarrow> store app r | _ \<Rightarrow> [])
   \<and> filter_status_codes_exclude_only (init_env self app)
     = (case config app (label_status_codes_exclude_only self) of
          Some (PyBool b) \<Rightarrow> b | _ \<Rightarrow> False)
   \<and> filter_status_codes_empty (init_env self app)
     = (items (store app) (filter_status_codes (init_env self app)) = [])
   \<and> hooks (set_config (init_app self app) k v) = hooks app @ [init_env self app]
   \<and> store (set_config (init_app self app) k v) = store app
   \<and> hooks (list_append (init_app self app) r x) = hooks app @ [init_env self app]
   \<and> items (store (list_append (init_app self app) r x)) NewList = []
   \<and> label_status_codes (fst (processor_new a prefix))
     = (if strip prefix = [] then default_prefix else strip prefix) @ ustr ''_STATUS_CODES''
   \<and> label_status_codes_exclude_only (fst (processor_new a prefix))
     = (if strip prefix = [] then default_prefix else strip prefix)
       @ ustr ''_STATUS_CODES_EXCLUDE_ONLY''"
  by (simp add: init_env_def init_app_def set_config_def list_append_def dict_get_def
        processor_new_def Let_def split: option.splits pyval.splits)

text \<open>
  Claim C10. The decorator's call has the value \<open>None\<close>, so the decorated name is bound to
  \<open>None\<close>; the function itself is in the slot, and it is the one the after-hook calls.
\<close>

theorem decorator_returns_none:
  "snd (process_request_response self f) = None
   \<and> process_request_response_f (fst (process_request_response self f)) = Some f
   \<and> invoked (snd (after_request env h (fst (process_request_response self f)) rq
                     (before_request t0 g) now resp))
       = (if process_func env h resp then [f] else [])"
proof -
  have slot: "process_request_response_f (fst (process_request_response self f)) = Some f"
    by (simp add: process_request_response_def)
  show ?thesis
    using slot invoked_after_request [OF slot]
    by (simp add: process_request_response_def)
qed

section \<open>Properties of the formatters\<close>

text \<open>
  Claim C2. The accessors are not all total. \<open>bytes.decode\<close> raises \<open>UnicodeDecodeError\<close>,
  the handlers of \<open>query_string\<close> and \<open>payload_raw\<close> name \<open>UnicodeEncodeError\<close>, and
  neither class derives from the other: on a query string or a body that is the single
  byte \<open>0xFF\<close> the accessor raises instead of returning the empty string.
\<close>

theorem decode_failure_propagates:
  "query_string \<lparr>req_query_string = [0xFF], req_headers_wsgi = [], req_get_data = [],
                  req_get_json = JNull\<rparr> = Inl UnicodeDecodeError
   \<and> payload_raw \<lparr>req_query_string = [], req_headers_wsgi = [], req_get_data = [0xFF],
                  req_get_json = JNull\<rparr> = Inl UnicodeDecodeError"
  by (simp add: query_string_def payload_raw_def decode_utf8_def try_except_def
        issubclass_def)

text \<open>
  Claim C4. \<open>payload_is_json\<close> holds exactly when the header \<open>Content-Type\<close> is
  \<open>application/json\<close> and the parsed payload is not \<open>None\<close>; \<open>response_is_json\<close> returns
  \<open>True\<close> exactly when the response's content type is \<open>application/json\<close> and the parsed
  body is not \<open>None\<close>. With the content type \<open>text/plain\<close> the result is \<open>False\<close> whatever
  the body.
\<close>

theorem is_json_iff:
  "payload_is_json rq
     = (headers rq (ustr ''Content-Type'') = Some (ustr ''application/json'')
        \<and> payload_json rq \<noteq> JNull)
   \<and> (response_is_json loads rs = Inr True)
     = (resp_content_type rs = Some (ustr ''application/json'')
        \<and> (\<exists>v. response_json loads rs = Inr v \<and> v \<noteq> JNull))
   \<and> payload_is_json \<lparr>req_query_string = q,
         req_headers_wsgi = [[ustr ''Content-Type'', ustr ''text/plain'']],
         req_get_data = d, req_get_json = j\<rparr> = False"
proof (intro conjI)
  show "payload_is_json rq
     = (headers rq (ustr ''Content-Type'') = Some (ustr ''application/json'')
        \<and> payload_json rq \<noteq> JNull)"
    by (simp add: payload_is_json_def Let_def split: option.splits)
  show "(response_is_json loads rs = Inr True)
     = (resp_content_type rs = Some (ustr ''application/json'')
        \<and> (\<exists>v. response_json loads rs = Inr v \<and> v \<noteq> JNull))"
    by (simp add: response_is_json_def split: sum.splits)
  show "payload_is_json \<lparr>req_query_string = q,
         req_headers_wsgi = [[ustr ''Content-Type'', ustr ''text/plain'']],
         req_get_data = d, req_get_json = j\<rparr> = False"
    by (simp add: payload_is_json_def headers_def ustr_def)
qed

subsection \<open>The serializer adds no space\<close>

lemma spaces_Nil: "spaces [] = 0"
  by (simp add: spaces_def)

lemma spaces_Cons: "spaces (c # s) = (if c = 32 then 1 else 0) + spaces s"
  by (simp add: spaces_def)

lemma spaces_append: "spaces (a @ b) = spaces a + spaces b"
  by (simp add: spaces_def)

lemmas spaces_simps = spaces_Nil spaces_Cons spaces_append

lemma spaces_zero_iff: "(spaces s = 0) = (32 \<notin> set s)"
  by (simp add: spaces_def count_list_0_iff)

lemma spaces_nat_repr: "spaces (nat_repr n) = 0"
proof (induction n rule: nat_repr.induct)
  case (1 n)
  show ?case
  proof (cases "n < 10")
    case True
    then show ?thesis by (subst nat_repr.simps) (simp add: spaces_simps)
  next
    case False
    with 1 show ?thesis by (subst nat_repr.simps) (simp add: spaces_simps)
  qed
qed

lemma spaces_int_repr: "spaces (int_repr i) = 0"
  by (simp add: int_repr_def spaces_simps spaces_nat_repr)

lemma spaces_digit_chars: "spaces (digit_chars ds) = 0"
  by (induction ds) (simp_all add: digit_chars_def spaces_simps)

lemma spaces_take: "spaces s = 0 \<Longrightarrow> spaces (take n s) = 0"
  unfolding spaces_zero_iff by (auto dest: in_set_takeD)

lemma spaces_drop: "spaces s = 0 \<Longrightarrow> spaces (drop n s) = 0"
  unfolding spaces_zero_iff by (auto dest: in_set_dropD)

lemma spaces_zeros: "spaces (replicate n 48) = 0"
  unfolding spaces_zero_iff by simp

lemma spaces_exponent_repr: "spaces (exponent_repr e) = 0"
  by (simp add: exponent_repr_def spaces_simps spaces_nat_repr)

lemma spaces_float_repr: "spaces (float_repr neg ds p) = 0"
  by (simp add: float_repr_def spaces_simps spaces_digit_chars spaces_take spaces_drop
        spaces_zeros spaces_exponent_repr)

lemma spaces_floatstr: "spaces (floatstr x) = 0"
  by (cases x) (simp_all add: spaces_float_repr, simp_all add: ustr_def spaces_simps)

lemma spaces_u_escape: "spaces (u_escape n) = 0"
  by (simp add: u_escape_def hex_digit_def spaces_simps)

lemma spaces_escape_char: "spaces (escape_char c) = (if c = 32 then 1 else 0)"
  by (simp add: escape_char_def spaces_simps spaces_u_escape Let_def)

lemma spaces_concat_escape: "spaces (concat (map escape_char s)) = spaces s"
  by (induction s) (simp_all add: spaces_simps spaces_escape_char)

lemma spaces_encode_str: "spaces (encode_str s) = spaces s"
  by (simp add: encode_str_def spaces_simps spaces_concat_escape)

lemma spaces_join: "spaces sep = 0 \<Longrightarrow> spaces (join sep xs) = sum_list (map spaces xs)"
  by (induction sep xs rule: join.induct) (simp_all add: spaces_simps)

lemma spaces_separators:
  "spaces (fst json_separators) = 0" "spaces (snd json_separators) = 0"
  by (simp_all add: json_separators_def ustr_def spaces_simps)

lemma spaces_literals:
  "spaces (ustr ''['') = 0" "spaces (ustr '']'') = 0"
  "spaces (ustr ''{'') = 0" "spaces (ustr ''}'') = 0"
  "spaces (ustr ''null'') = 0" "spaces (ustr ''true'') = 0" "spaces (ustr ''false'') = 0"
  by (simp_all add: ustr_def spaces_simps)

lemma spaces_json_encode: "spaces (json_encode json_separators v) = json_spaces v"
proof (induction v)
  case (JArray xs)
  have "map (\<lambda>x. spaces (json_encode json_separators x)) xs = map json_spaces xs"
    by (rule map_cong [OF refl]) (simp add: JArray)
  then have "sum_list (map (\<lambda>x. spaces (json_encode json_separators x)) xs)
             = sum_list (map json_spaces xs)"
    by (rule arg_cong)
  then show ?case
    by (simp add: spaces_append spaces_join spaces_separators spaces_literals comp_def)
next
  case (JObject kvs)
  have "map (\<lambda>kv. spaces ((\<lambda>(k, v). encode_str k @ snd json_separators
                                    @ json_encode json_separators v) kv)) kvs
        = map (\<lambda>(k, v). spaces k + json_spaces v) kvs"
  proof (rule map_cong [OF refl])
    fix kv assume mem: "kv \<in> set kvs"
    obtain k v where kv: "kv = (k, v)" by (cases kv)
    from mem kv JObject have "spaces (json_encode json_separators v) = json_spaces v"
      by fastforce
    then show "spaces ((\<lambda>(k, v). encode_str k @ snd json_separators
                                    @ json_encode json_separators v) kv)
        = (case kv of (k, v) \<Rightarrow> spaces k + json_spaces v)"
      by (simp add: kv spaces_append spaces_encode_str spaces_separators)
  qed
  then have "sum_list (map (\<lambda>kv. spaces ((\<lambda>(k, v). encode_str k @ snd json_separators
                                    @ json_encode json_separators v) kv)) kvs)
        = sum_list (map (\<lambda>(k, v). spaces k + json_spaces v) kvs)"
    by (rule arg_cong)
  then show ?case
    by (simp add: spaces_append spaces_join spaces_separators spaces_literals comp_def)
qed (simp_all add: spaces_int_repr spaces_encode_str spaces_literals spaces_floatstr)

subsection \<open>A failing serialization is not turned into the empty string\<close>

lemma try_except_not_caught:
  "try_except body cls (Inr d) = Inl e \<Longrightarrow> \<not> issubclass e cls"
  by (auto simp add: try_except_def split: sum.splits if_splits)

lemma payload_compressed_eq:
  "payload_json_compressed_str room rq
     = (if room < json_depth (payload_json rq) then Inl RecursionError
        else Inr (json_encode json_separators (payload_json rq)))"
  by (simp add: payload_json_compressed_str_def json_dumps_def try_except_def
        issubclass_def)

lemma response_compressed_eq:
  "response_json_compressed_str room loads rs
     = (case response_json loads rs of
          Inl e \<Rightarrow> Inl e
        | Inr v \<Rightarrow>
            if room < json_depth v then Inl RecursionError
            else Inr (json_encode json_separators v))"
proof (cases "response_json loads rs")
  case (Inl e)
  then have "\<not> issubclass e JSONDecodeError"
    unfolding response_json_def by (rule try_except_not_caught)
  with Inl show ?thesis
    by (simp add: response_json_compressed_str_def try_except_def)
next
  case (Inr v)
  then show ?thesis
    by (simp add: response_json_compressed_str_def json_dumps_def try_except_def
          issubclass_def)
qed

lemma encode_example:
  "json_encode json_separators
     (JObject [(ustr ''a'', JInt 1), (ustr ''b'', JStr (ustr ''x''))])
     = ustr ''{\"a\":1,\"b\":\"x\"}''"
  by (simp add: json_separators_def ustr_def encode_str_def escape_char_def int_repr_def
        nat_repr.simps)

lemma json_depth_nested: "json_depth (nested n) = Suc n"
  by (induction n) simp_all

text \<open>
  Claim C7. A parsed payload that the encoder can write is returned as its serialization
  with the separators \<open>,\<close> and \<open>:\<close>, by the request's accessor and by the response's. The
  serializer adds no space: the spaces of the text are those of the keys and strings of
  the value. The object with \<open>a\<close> bound to 1 and \<open>b\<close> bound to the string \<open>x\<close> gives the
  expected text. The last part of the claim fails on the code: when the serialization
  fails, here on arrays nested one level deeper than the recursion limit allows, the
  accessor raises \<open>RecursionError\<close> and does not return the empty string, because its
  handler names \<open>json.JSONDecodeError\<close>, which the encoder does not raise.
\<close>

theorem compressed_str_minified_or_raises:
  "payload_json_compressed_str room rq
     = (if room < json_depth (payload_json rq) then Inl RecursionError
        else Inr (json_encode (ustr '','', ustr '':'') (payload_json rq)))
   \<and> response_json_compressed_str room loads rs
     = (case response_json loads rs of
          Inl e \<Rightarrow> Inl e
        | Inr v \<Rightarrow>
            if room < json_depth v then Inl RecursionError
            else Inr (json_encode (ustr '','', ustr '':'') v))
   \<and> spaces (json_encode (ustr '','', ustr '':'') v) = json_spaces v
   \<and> payload_json_compressed_str (Suc room)
       \<lparr>req_query_string = q, req_headers_wsgi = hs, req_get_data = d,
        req_get_json = JObject [(ustr ''a'', JInt 1), (ustr ''b'', JStr (ustr ''x''))]\<rparr>
     = Inr (ustr ''{\"a\":1,\"b\":\"x\"}'')
   \<and> payload_json_compressed_str room
       \<lparr>req_query_string = q, req_headers_wsgi = hs, req_get_data = d,
        req_get_json = nested room\<rparr>
     = Inl RecursionError"
proof -
  have sep: "(ustr '','', ustr '':'') = json_separators"
    by (simp add: json_separators_def)
  have ex: "payload_json_compressed_str (Suc room)
       \<lparr>req_query_string = q, req_headers_wsgi = hs, req_get_data = d,
        req_get_json = JObject [(ustr ''a'', JInt 1), (ustr ''b'', JStr (ustr ''x''))]\<rparr>
     = Inr (ustr ''{\"a\":1,\"b\":\"x\"}'')"
    unfolding payload_compressed_eq payload_json_def
    by (simp only: request.simps encode_example) simp
  have bad: "payload_json_compressed_str room
       \<lparr>req_query_string = q, req_headers_wsgi = hs, req_get_data = d,
        req_get_json = nested room\<rparr>
     = Inl RecursionError"
    unfolding payload_compressed_eq payload_json_def
    by (simp only: request.simps json_depth_nested) simp
  show ?thesis
    unfolding sep
    using payload_compressed_eq [of room rq] response_compressed_eq [of room loads rs]
      spaces_json_encode [of v] ex bad
    by (intro conjI)
qed

subsection \<open>The header mapping\<close>

lemma headers_dict_snoc:
  "headers_dict d (hs @ [h]) =
     (if length h = 2 then (headers_dict d hs)(h ! 0 \<mapsto> h ! 1) else headers_dict d hs)"
  by (induction hs arbitrary: d) simp_all

lemma pair_nth: "length h = 2 \<Longrightarrow> h = [h ! 0, h ! 1]"
  by (cases h; cases "tl h") auto

lemma headers_dict_last:
  "(headers_dict Map.empty hs k = Some v) =
   (\<exists>xs ys. hs = xs @ [k, v] # ys \<and> (\<forall>h \<in> set ys. length h = 2 \<longrightarrow> h ! 0 \<noteq> k))"
proof (induction hs rule: rev_induct)
  case Nil
  then show ?case by simp
next
  case (snoc h hs)
  show ?case
  proof (cases "length h = 2 \<and> h ! 0 = k")
    case True
    then have h: "h = [k, h ! 1]" using pair_nth by metis
    have "(\<exists>xs ys. hs @ [h] = xs @ [k, v] # ys
             \<and> (\<forall>h \<in> set ys. length h = 2 \<longrightarrow> h ! 0 \<noteq> k))
          = (h ! 1 = v)"
    proof
      assume "\<exists>xs ys. hs @ [h] = xs @ [k, v] # ys
                \<and> (\<forall>h \<in> set ys. length h = 2 \<longrightarrow> h ! 0 \<noteq> k)"
      then obtain xs ys where eq: "hs @ [h] = xs @ [k, v] # ys"
        and no: "\<forall>h \<in> set ys. length h = 2 \<longrightarrow> h ! 0 \<noteq> k" by blast
      show "h ! 1 = v"
      proof (cases ys rule: rev_cases)
        case Nil
        with eq have "h = [k, v]" by simp
        then show ?thesis by simp
      next
        case (snoc ys' y)
        with eq have "y = h" by simp
        with snoc no True show ?thesis by simp
      qed
    next
      assume "h ! 1 = v"
      with h have "hs @ [h] = hs @ [k, v] # []" by simp
      then show "\<exists>xs ys. hs @ [h] = xs @ [k, v] # ys
                   \<and> (\<forall>h \<in> set ys. length h = 2 \<longrightarrow> h ! 0 \<noteq> k)"
        by (metis empty_iff list.set(1))
    qed
    with True show ?thesis by (simp add: headers_dict_snoc)
  next
    case False
    have "(\<exists>xs ys. hs @ [h] = xs @ [k, v] # ys
             \<and> (\<forall>h \<in> set ys. length h = 2 \<longrightarrow> h ! 0 \<noteq> k))
          = (\<exists>xs ys. hs = xs @ [k, v] # ys
               \<and> (\<forall>h \<in> set ys. length h = 2 \<longrightarrow> h ! 0 \<noteq> k))"
    proof
      assume "\<exists>xs ys. hs @ [h] = xs @ [k, v] # ys
                \<and> (\<forall>h \<in> set ys. length h = 2 \<longrightarrow> h ! 0 \<noteq> k)"
      then obtain xs ys where eq: "hs @ [h] = xs @ [k, v] # ys"
        and no: "\<forall>h \<in> set ys. length h = 2 \<longrightarrow> h ! 0 \<noteq> k" by blast
      show "\<exists>xs ys. hs = xs @ [k, v] # ys
              \<and> (\<forall>h \<in> set ys. length h = 2 \<longrightarrow> h ! 0 \<noteq> k)"
      proof (cases ys rule: rev_cases)
        case Nil
        with eq have "h = [k, v]" by simp
        with False show ?thesis by simp
      next
        case (snoc ys' y)
        with eq have "hs = xs @ [k, v] # ys'" by simp
        moreover from snoc no
        have "\<forall>h \<in> set ys'. length h = 2 \<longrightarrow> h ! 0 \<noteq> k" by simp
        ultimately show ?thesis by blast
      qed
    next
      assume "\<exists>xs ys. hs = xs @ [k, v] # ys
                \<and> (\<forall>h \<in> set ys. length h = 2 \<longrightarrow> h ! 0 \<noteq> k)"
      then obtain xs ys where eq: "hs = xs @ [k, v] # ys"
        and no: "\<forall>h \<in> set ys. length h = 2 \<longrightarrow> h ! 0 \<noteq> k" by blast
      from eq have "hs @ [h] = xs @ [k, v] # (ys @ [h])" by simp
      moreover from no False
      have "\<forall>h' \<in> set (ys @ [h]). length h' = 2 \<longrightarrow> h' ! 0 \<noteq> k" by auto
      ultimately show "\<exists>xs ys. hs @ [h] = xs @ [k, v] # ys
                         \<and> (\<forall>h \<in> set ys. length h = 2 \<longrightarrow> h ! 0 \<noteq> k)"
        by blast
    qed
    with False snoc show ?thesis by (auto simp add: headers_dict_snoc)
  qed
qed

text \<open>
  Claim C8. The mapping sends a name \<open>k\<close> to \<open>v\<close> exactly when the two-element tuple
  \<open>(k, v)\<close> is in the list and no two-element tuple after it has the name \<open>k\<close>: tuples of
  another length contribute nothing, and the last pair of a name gives its value.
\<close>

theorem headers_last_pair_wins:
  "(headers rq k = Some v) =
   (\<exists>xs ys. req_headers_wsgi rq = xs @ [k, v] # ys
       \<and> (\<forall>h \<in> set ys. length h = 2 \<longrightarrow> h ! 0 \<noteq> k))"
  unfolding headers_def by (rule headers_dict_last)

theorem headers_last_pair_wins_witness:
  "headers
     \<lparr>req_query_string = [],
      req_headers_wsgi =
        [[ustr ''Host'', ustr ''a''], [ustr ''Host'', ustr ''b'', ustr ''c''],
         [ustr ''Host'', ustr ''d''], [ustr ''Accept'', ustr ''x''], [ustr ''Host'']],
      req_get_data = [], req_get_json = JNull\<rparr>
     (ustr ''Host'') = Some (ustr ''d'')"
proof -
  have "\<exists>xs ys.
          [[ustr ''Host'', ustr ''a''], [ustr ''Host'', ustr ''b'', ustr ''c''],
           [ustr ''Host'', ustr ''d''], [ustr ''Accept'', ustr ''x''], [ustr ''Host'']]
            = xs @ [ustr ''Host'', ustr ''d''] # ys
          \<and> (\<forall>h \<in> set ys. length h = 2 \<longrightarrow> h ! 0 \<noteq> ustr ''Host'')"
    by (rule exI [of _ "[[ustr ''Host'', ustr ''a''], [ustr ''Host'', ustr ''b'', ustr ''c'']]"],
        rule exI [of _ "[[ustr ''Accept'', ustr ''x''], [ustr ''Host'']]"])
       (simp add: ustr_def)
  then show ?thesis
    by (simp add: headers_last_pair_wins)
qed

text \<open>
  Claim C9. When the payload did not parse, so that \<open>payload_json\<close> is \<open>None\<close>, the
  compressed string is the four characters \<open>null\<close>, not the empty string; the same holds
  for a response whose body the parser rejects.
\<close>

theorem compressed_str_of_null:
  "(req_get_json rq = JNull \<longrightarrow> payload_json_compressed_str room rq = Inr (ustr ''null''))
   \<and> (resp_get_data_text rs = Inr s \<and> loads s = Inl JSONDecodeError
        \<longrightarrow> response_json_compressed_str room loads rs = Inr (ustr ''null''))
   \<and> length (ustr ''null'') = 4"
  by (simp add: payload_json_compressed_str_def payload_json_def try_except_def
        response_json_compressed_str_def response_json_def response_raw_def issubclass_def
        json_dumps_def ustr_def)

theorem compressed_str_of_null_witness:
  "req_get_json \<lparr>req_query_string = [], req_headers_wsgi = [], req_get_data = [79, 107],
                  req_get_json = JNull\<rparr> = JNull
   \<and> payload_json_compressed_str 0 \<lparr>req_query_string = [], req_headers_wsgi = [],
        req_get_data = [79, 107], req_get_json = JNull\<rparr> = Inr (ustr ''null'')
   \<and> response_json_compressed_str 0
       (\<lambda>s. if s = ustr ''Ok'' then Inl JSONDecodeError else Inr JNull)
       \<lparr>resp_status_code = 200,
        resp_content_type = Some (ustr ''text/html; charset=utf-8''),
        resp_get_data_text = Inr (ustr ''Ok'')\<rparr> = Inr (ustr ''null'')"
  using compressed_str_of_null
    [where rq = "\<lparr>req_query_string = [], req_headers_wsgi = [],
                   req_get_data = [79, 107], req_get_json = JNull\<rparr>"
       and room = 0
       and rs = "\<lparr>resp_status_code = 200,
                   resp_content_type = Some (ustr ''text/html; charset=utf-8''),
                   resp_get_data_text = Inr (ustr ''Ok'')\<rparr>"
       and s = "ustr ''Ok''"
       and loads = "\<lambda>s. if s = ustr ''Ok'' then Inl JSONDecodeError else Inr JNull"]
  by simp

end
